theory Spec2Isabelle
  imports Complex_Main "HOL-Library.Sublist"
begin

section \<open>Python strings\<close>

text \<open>
  A Python \<^verbatim>\<open>str\<close> is modelled as a \<^typ>\<open>string\<close> whose characters are the code points
  U+0000 .. U+00FF. On that range \<^verbatim>\<open>str.isspace\<close> holds of exactly the twelve code points
  listed in \<open>is_space\<close>, and \<^verbatim>\<open>str.lower\<close> moves \<open>A-Z\<close> and the upper-case Latin-1 letters
  (U+00C0 .. U+00DE without the multiplication sign U+00D7) up by 32 and leaves every other
  character alone.
\<close>

definition is_space :: "char \<Rightarrow> bool" where
  "is_space c = ((of_char c :: nat) \<in> {9, 10, 11, 12, 13, 28, 29, 30, 31, 32, 133, 160})"

definition lstrip :: "string \<Rightarrow> string" where
  "lstrip s = dropWhile is_space s"

definition rstrip :: "string \<Rightarrow> string" where
  "rstrip s = rev (dropWhile is_space (rev s))"

definition strip :: "string \<Rightarrow> string" where
  "strip s = rstrip (lstrip s)"

definition lower_char :: "char \<Rightarrow> char" where
  "lower_char c =
     (let n = (of_char c :: nat) in
      if (65 \<le> n \<and> n \<le> 90) \<or> (192 \<le> n \<and> n \<le> 222 \<and> n \<noteq> 215)
      then char_of (n + 32) else c)"

definition lower :: "string \<Rightarrow> string" where
  "lower s = map lower_char s"

text \<open>
  \<^verbatim>\<open>re.search(r'(a1|a2|...)', s)\<close> for literal alternatives: the scan tries every start
  position from the left, and at one position the alternatives in the order they are
  written. The result is \<^verbatim>\<open>match.group(1)\<close>, or \<open>None\<close> when no position matches.
\<close>

fun re_search :: "string list \<Rightarrow> string \<Rightarrow> string option" where
  "re_search alts [] = find (\<lambda>a. prefix a []) alts"
| "re_search alts (c # cs) =
     (case find (\<lambda>a. prefix a (c # cs)) alts of
        Some a \<Rightarrow> Some a
      | None \<Rightarrow> re_search alts cs)"

section \<open>The external services and the state of a run\<close>

text \<open>
  The language model, the prompt templates and the retrieval chain are libraries outside
  the repository. A call \<^verbatim>\<open>(prompt | chat).invoke(vars)\<close> is a \<open>request\<close>: the messages of the
  template (role and template text) with the variable bindings, from which the library
  renders the prompt that the model reads; the generation step of
  \<^verbatim>\<open>RetrievalQA(chain_type="stuff").run(q)\<close> is the request \<open>StuffQA chunks q\<close>: it puts
  the retrieved chunks and the question into one prompt and calls the model once.
  An exception of class \<^verbatim>\<open>Exception\<close> is a value of \<open>exn\<close>.
\<close>

datatype role = System | Human

datatype request =
    Invoke "(role \<times> string) list" "(string \<times> string) list"
  | StuffQA "string list" string

datatype exn = Exn string

text \<open>
  The services are parameters of the model. The answer of the Completion Service may
  depend on every request made before (it is not assumed to be a function of the prompt),
  and each call may raise. The retriever returns the chunks found for a query, or raises.
  \<open>formatter\<close> is what the template library makes of a text with a conversion or a
  format specification (see the section on prompt templates).
\<close>

record services =
  llm :: "request list \<Rightarrow> request \<Rightarrow> exn + string"
  retriever :: "string \<Rightarrow> exn + string list"
  formatter :: "string \<Rightarrow> (string \<times> string) list \<Rightarrow> exn + string"

text \<open>
  The table \<^verbatim>\<open>equipment\<close>. \<^verbatim>\<open>available\<close> is a nullable Boolean column. \<^verbatim>\<open>price\<close> is a Float
  column: the program stores and prints prices and never computes with them, so a price
  is modelled by the real number it denotes. The \<^verbatim>\<open>id\<close> (here \<open>equipment_id\<close>) of an object that is not yet in
  the table is not read (it stands as 0); the table assigns it on insertion. The store
  itself is taken to work: a query and a commit do not raise.
\<close>

record equipment =
  equipment_id :: nat
  name :: string
  category :: string
  price :: real
  available :: "bool option"

text \<open>
  The state of a run: the rows of the table in insertion order, and the traces of the
  calls made to the Completion Service, of the names queried in the table and of the
  queries sent to the retriever.
\<close>

record world =
  catalog :: "equipment list"
  llm_calls :: "request list"
  db_queries :: "string list"
  kb_queries :: "string list"

definition invoke :: "services \<Rightarrow> request \<Rightarrow> world \<Rightarrow> (exn + string) \<times> world" where
  "invoke sv rq w = (llm sv (llm_calls w) rq, w\<lparr>llm_calls := llm_calls w @ [rq]\<rparr>)"

section \<open>Prompt templates\<close>

text \<open>
  A prompt template is rendered before the model is called: the library reads the text
  of each message as a Python format string (\<^verbatim>\<open>string.Formatter\<close>) and fills the fields
  from the bindings of \<^verbatim>\<open>invoke\<close>. \<open>{{\<close> and \<open>}}\<close> stand for one brace; \<open>{name}\<close> is a
  field, replaced by the value bound to \<open>name\<close>. A brace that opens no field or closes
  none, a field that does not end, a \<open>{\<close> or \<open>[\<close> inside a field name, and a field whose
  name has no binding all raise. What a field with a conversion (\<open>!\<close>) or a format
  specification (\<open>:\<close>) gives is left to the library: the parameter \<open>special\<close> stands for
  the rendering of a text that has such a field on a bound name.

  The scan reads the text character by character. Its states: in plain text (\<open>Text\<close>),
  after an opening brace (\<open>Open\<close>), after a closing brace (\<open>Close\<close>), inside a field
  whose name so far is given (\<open>Field\<close>), failed, or handed to the library; \<open>Text\<close>,
  \<open>Open\<close>, \<open>Close\<close> and \<open>Field\<close> carry the text rendered so far.
\<close>

datatype scan =
    Text string
  | Open string
  | Close string
  | Field string string
  | Failed exn
  | Special

definition field_step :: "(string \<times> string) list \<Rightarrow> string \<Rightarrow> string \<Rightarrow> char \<Rightarrow> scan" where
  "field_step vars out n c =
     (if c = CHR ''}'' then
        (case map_of vars n of
           Some v \<Rightarrow> Text (out @ v)
         | None \<Rightarrow> Failed (Exn ''KeyError''))
      else if c = CHR '':'' \<or> c = CHR ''!'' then
        (case map_of vars n of
           Some v \<Rightarrow> Special
         | None \<Rightarrow> Failed (Exn ''KeyError''))
      else if c = CHR ''{'' \<or> c = CHR ''['' then Failed (Exn ''ValueError'')
      else Field out (n @ [c]))"

fun scan_step :: "(string \<times> string) list \<Rightarrow> scan \<Rightarrow> char \<Rightarrow> scan" where
  "scan_step vars (Text out) c =
     (if c = CHR ''{'' then Open out
      else if c = CHR ''}'' then Close out
      else Text (out @ [c]))"
| "scan_step vars (Open out) c =
     (if c = CHR ''{'' then Text (out @ [c]) else field_step vars out [] c)"
| "scan_step vars (Close out) c =
     (if c = CHR ''}'' then Text (out @ [c]) else Failed (Exn ''ValueError''))"
| "scan_step vars (Field out n) c = field_step vars out n c"
| "scan_step vars (Failed e) c = Failed e"
| "scan_step vars Special c = Special"

definition format_template ::
    "(string \<Rightarrow> (string \<times> string) list \<Rightarrow> exn + string) \<Rightarrow> (string \<times> string) list
       \<Rightarrow> string \<Rightarrow> exn + string" where
  "format_template special vars t =
     (case foldl (scan_step vars) (Text []) t of
        Text out \<Rightarrow> Inr out
      | Open out \<Rightarrow> Inl (Exn ''ValueError'')
      | Close out \<Rightarrow> Inl (Exn ''ValueError'')
      | Field out n \<Rightarrow> Inl (Exn ''ValueError'')
      | Failed e \<Rightarrow> Inl e
      | Special \<Rightarrow> special t vars)"

text \<open>The messages of a template are rendered in order; the first exception leaves.\<close>

fun render_messages ::
    "(string \<Rightarrow> (string \<times> string) list \<Rightarrow> exn + string) \<Rightarrow> (string \<times> string) list
       \<Rightarrow> (role \<times> string) list \<Rightarrow> exn + (role \<times> string) list" where
  "render_messages special vars [] = Inr []"
| "render_messages special vars ((r, t) # ms) =
     (case format_template special vars t of
        Inl e \<Rightarrow> Inl e
      | Inr t' \<Rightarrow>
          (case render_messages special vars ms of
             Inl e \<Rightarrow> Inl e
           | Inr ms' \<Rightarrow> Inr ((r, t') # ms')))"

section \<open>The classifier\<close>

definition categories :: "string list" where
  "categories =
     [''positive_review'', ''negative_review'', ''price_availability_inquiry'',
      ''general_inquiry'']"

definition classification_prompt :: "string \<Rightarrow> (role \<times> string) list" where
  "classification_prompt email_content =
     [(System, ''You are an AI assistant that classifies emails into four categories: 'positive_review', 'negative_review', 'price_availability_inquiry', or 'general_inquiry'. Respond with ONLY the category name, nothing else.''),
      (Human, ''\<newline>    Classify the following email into one of these categories: 'positive_review', 'negative_review', 'price_availability_inquiry', or 'general_inquiry':\<newline>\<newline>    ''
              @ email_content @ ''\<newline>\<newline>    Classification:'')]"

text \<open>
  The human message of the classification prompt is an f-string: the email is pasted into
  the text of the template, and the template is rendered from that text. So the email is
  itself read as a format string, and an email with a brace can make the rendering raise.
  That happens inside the \<^verbatim>\<open>try\<close> block, before the model is called: the result is
  \<open>error\<close> and no call is made.
\<close>

definition classify_email :: "services \<Rightarrow> string \<Rightarrow> world \<Rightarrow> string \<times> world" where
  "classify_email sv email_content w =
     (case render_messages (formatter sv) [(''email_content'', email_content)]
             (classification_prompt email_content) of
        Inl e \<Rightarrow> (''error'', w)
      | Inr rendered \<Rightarrow>
          (case invoke sv (Invoke (classification_prompt email_content)
                                  [(''email_content'', email_content)]) w of
             (Inl e, w') \<Rightarrow> (''error'', w')
           | (Inr content, w') \<Rightarrow>
               (let raw_classification = lower (strip content) in
                case re_search categories raw_classification of
                  Some classified_category \<Rightarrow> (classified_category, w')
                | None \<Rightarrow> (''error'', w'))))"

section \<open>The name extractor and the price and availability handler\<close>

definition extraction_prompt :: "(role \<times> string) list" where
  "extraction_prompt =
     [(System, ''You are an AI assistant that extracts equipment names from emails.''),
      (Human, ''Extract the name of the film equipment mentioned in the following email:\<newline>\<newline>{email_content}\<newline>\<newline>Equipment name:'')]"

definition extract_equipment_name :: "services \<Rightarrow> string \<Rightarrow> world \<Rightarrow> string option \<times> world" where
  "extract_equipment_name sv email_content w =
     (case invoke sv (Invoke extraction_prompt [(''email_content'', email_content)]) w of
        (Inl e, w') \<Rightarrow> (None, w')
      | (Inr content, w') \<Rightarrow> (Some (strip content), w'))"

text \<open>
  \<^verbatim>\<open>session.query(Equipment).filter_by(name=n).first()\<close>: the first row whose name equals
  \<open>n\<close> (the comparison of the store is equality of the two strings), or \<open>None\<close>.
\<close>

definition query_first_by_name :: "string \<Rightarrow> world \<Rightarrow> equipment option \<times> world" where
  "query_first_by_name n w =
     (find (\<lambda>e. name e = n) (catalog w), w\<lparr>db_queries := db_queries w @ [n]\<rparr>)"

text \<open>
  The f-string prints the price as \<^verbatim>\<open>str\<close> prints a float. For a float whose value is an
  integer below \<open>10^16\<close> in magnitude that is the integer in decimal followed by \<open>.0\<close>;
  the text of every other float is left to the parameter \<open>other\<close>.
\<close>

fun show_nat :: "nat \<Rightarrow> string" where
  "show_nat n =
     (if n < 10 then [char_of (48 + n)]
      else show_nat (n div 10) @ [char_of (48 + n mod 10)])"

declare show_nat.simps [simp del]

definition float_str :: "(real \<Rightarrow> string) \<Rightarrow> real \<Rightarrow> string" where
  "float_str other x =
     (if x \<in> \<int> \<and> \<bar>x\<bar> < 10 ^ 16
      then (if x < 0 then ''-'' else []) @ show_nat (nat \<lfloor>\<bar>x\<bar>\<rfloor>) @ ''.0''
      else other x)"

definition fallback_message :: string where
  "fallback_message = ''Thank you for your inquiry. We couldn't find specific information about the equipment you mentioned. Please contact our customer service for further assistance.''"

definition no_match_message :: "string \<Rightarrow> string" where
  "no_match_message equipment_name =
     ''We're sorry, but we don't have information about '' @ equipment_name
       @ '' in our database. Please contact our customer service for more details.''"

definition match_message :: "(real \<Rightarrow> string) \<Rightarrow> equipment \<Rightarrow> string" where
  "match_message other e =
     (let availability = (if available e = Some True then ''available'' else ''not available'')
      in ''The '' @ name e @ '' is '' @ availability @ '' for rent at $''
           @ float_str other (price e) @ '' per day.'')"

definition handle_price_availability_inquiry ::
    "(real \<Rightarrow> string) \<Rightarrow> services \<Rightarrow> string \<Rightarrow> world \<Rightarrow> string \<times> world" where
  "handle_price_availability_inquiry other sv email_content w =
     (case extract_equipment_name sv email_content w of
        (None, w1) \<Rightarrow> (fallback_message, w1)
      | (Some equipment_name, w1) \<Rightarrow>
          if equipment_name \<noteq> [] then
            (case query_first_by_name equipment_name w1 of
               (Some e, w2) \<Rightarrow> (match_message other e, w2)
             | (None, w2) \<Rightarrow> (no_match_message equipment_name, w2))
          else (fallback_message, w1))"

section \<open>The general inquiry and the review handlers\<close>

text \<open>
  \<^verbatim>\<open>qa_chain.run(q)\<close> asks the retriever for the chunks of \<open>q\<close> and then makes the one
  generation call on them; its result is the text of that call. Nothing here catches an
  exception of either step.
\<close>

definition handle_general_inquiry :: "services \<Rightarrow> string \<Rightarrow> world \<Rightarrow> (exn + string) \<times> world" where
  "handle_general_inquiry sv email_content w =
     (let w1 = w\<lparr>kb_queries := kb_queries w @ [email_content]\<rparr> in
      case retriever sv email_content of
        Inl e \<Rightarrow> (Inl e, w1)
      | Inr chunks \<Rightarrow> invoke sv (StuffQA chunks email_content) w1)"

definition positive_review_prompt :: "(role \<times> string) list" where
  "positive_review_prompt =
     [(System, ''You are responding to a positive review about a film equipment rental service. Thank the customer and encourage them to share their experience on social media.''),
      (Human, ''Positive review: {review}\<newline>\<newline>Response:'')]"

definition handle_positive_review :: "services \<Rightarrow> string \<Rightarrow> world \<Rightarrow> (exn + string) \<times> world" where
  "handle_positive_review sv email_content w =
     (case invoke sv (Invoke positive_review_prompt [(''review'', email_content)]) w of
        (Inl e, w') \<Rightarrow> (Inl e, w')
      | (Inr content, w') \<Rightarrow> (Inr (strip content), w'))"

section \<open>The router\<close>

text \<open>
  \<^verbatim>\<open>ChatPromptTemplate.from_template\<close> makes a template of one message, of the human role.
\<close>

definition negative_review_prompt :: "(role \<times> string) list" where
  "negative_review_prompt =
     [(Human, ''You are responding to a negative review about a film equipment rental service. Apologize for the inconvenience, offer a solution, and mention that a customer service representative will call them. Also, offer a gift voucher for their next rental. Review: {review}'')]"

definition forward_message :: string where
  "forward_message = ''This email requires further evaluation and has been forwarded to our customer service team. They will contact you shortly.''"

definition error_message :: string where
  "error_message = ''We encountered an error processing your email. A customer service representative will contact you shortly.''"

text \<open>The body of the \<^verbatim>\<open>try\<close> block of \<^verbatim>\<open>handle_email\<close>: \<open>Inl\<close> is an exception leaving it.\<close>

definition handle_email_try ::
    "(real \<Rightarrow> string) \<Rightarrow> services \<Rightarrow> string \<Rightarrow> world \<Rightarrow> (exn + string \<times> string) \<times> world" where
  "handle_email_try other sv email_content w =
     (case classify_email sv email_content w of
        (cat, w1) \<Rightarrow>
          if cat = ''positive_review'' then
            (case handle_positive_review sv email_content w1 of
               (Inl e, w2) \<Rightarrow> (Inl e, w2)
             | (Inr r, w2) \<Rightarrow> (Inr (cat, r), w2))
          else if cat = ''negative_review'' then
            (case invoke sv (Invoke negative_review_prompt [(''review'', email_content)]) w1 of
               (Inl e, w2) \<Rightarrow> (Inl e, w2)
             | (Inr content, w2) \<Rightarrow> (Inr (cat, content), w2))
          else if cat = ''price_availability_inquiry'' then
            (case handle_price_availability_inquiry other sv email_content w1 of
               (r, w2) \<Rightarrow> (Inr (cat, r), w2))
          else if cat = ''general_inquiry'' then
            (case handle_general_inquiry sv email_content w1 of
               (Inl e, w2) \<Rightarrow> (Inl e, w2)
             | (Inr r, w2) \<Rightarrow> (Inr (cat, r), w2))
          else (Inr (''forward_to_customer_service'', forward_message), w1))"

definition handle_email ::
    "(real \<Rightarrow> string) \<Rightarrow> services \<Rightarrow> string \<Rightarrow> world \<Rightarrow> (string \<times> string) \<times> world" where
  "handle_email other sv email_content w =
     (case handle_email_try other sv email_content w of
        (Inr result, w') \<Rightarrow> (result, w')
      | (Inl e, w') \<Rightarrow> ((''error'', error_message), w'))"

section \<open>Seeding the table\<close>

definition sample_equipment :: "equipment list" where
  "sample_equipment =
     [\<lparr>equipment_id = 0, name = ''RED DSMC 2'', category = ''Cameras'', price = 850, available = Some True\<rparr>,
      \<lparr>equipment_id = 0, name = ''Canon EF 24-70mm'', category = ''Lenses'', price = 50, available = Some True\<rparr>,
      \<lparr>equipment_id = 0, name = ''DJI Ronin-S'', category = ''Stabilizers'', price = 75, available = Some False\<rparr>,
      \<lparr>equipment_id = 0, name = ''ARRI SkyPanel S60-C'', category = ''Lighting'', price = 200, available = Some True\<rparr>]"

text \<open>\<^verbatim>\<open>session.add\<close>: the new row goes last and takes the next free key.\<close>

definition next_id :: "equipment list \<Rightarrow> nat" where
  "next_id rows = Suc (fold max (map equipment_id rows) 0)"

definition session_add :: "equipment \<Rightarrow> world \<Rightarrow> world" where
  "session_add e w = w\<lparr>catalog := catalog w @ [e\<lparr>equipment_id := next_id (catalog w)\<rparr>]\<rparr>"

text \<open>The \<^verbatim>\<open>for\<close> loop of \<^verbatim>\<open>add_sample_data\<close> over a list of equipment.\<close>

fun add_all :: "equipment list \<Rightarrow> world \<Rightarrow> world" where
  "add_all [] w = w"
| "add_all (e # es) w =
     (case query_first_by_name (name e) w of
        (None, w1) \<Rightarrow> add_all es (session_add e w1)
      | (Some existing, w1) \<Rightarrow> add_all es w1)"

definition add_sample_data :: "world \<Rightarrow> world" where
  "add_sample_data w = add_all sample_equipment w"

section \<open>Concrete services and states\<close>

text \<open>
  Services that answer from a script: the \<open>k\<close>-th call to the Completion Service gets the
  \<open>k\<close>-th answer of the script (a text, or an exception raised), a call beyond the script
  raises, the retriever returns the same chunks for every query, and a field with a
  conversion or a format specification raises. \<open>w0\<close> is the state
  before anything has run: an empty table and empty traces.
\<close>

definition scripted :: "(exn + string) list \<Rightarrow> string list \<Rightarrow> services" where
  "scripted answers chunks =
     \<lparr>llm = (\<lambda>history rq. if length history < length answers then answers ! length history
                           else Inl (Exn ''no answer'')),
      retriever = (\<lambda>q. Inr chunks),
      formatter = (\<lambda>t vars. Inl (Exn ''ValueError''))\<rparr>"

definition w0 :: world where
  "w0 = \<lparr>catalog = [], llm_calls = [], db_queries = [], kb_queries = []\<rparr>"

section \<open>Pattern search\<close>

lemma find_SomeD: "find P xs = Some x \<Longrightarrow> x \<in> set xs \<and> P x"
  by (induction xs) (auto split: if_splits)

lemma re_search_mem: "re_search alts s = Some a \<Longrightarrow> a \<in> set alts"
  by (induction alts s rule: re_search.induct)
     (auto split: option.splits dest: find_SomeD)

lemma re_search_None_iff:
  "re_search alts s = None \<longleftrightarrow> (\<forall>j\<le>length s. \<forall>b\<in>set alts. \<not> prefix b (drop j s))"
proof (induction alts s rule: re_search.induct)
  case (1 alts)
  then show ?case by (auto simp: find_None_iff)
next
  case (2 alts c cs)
  have "(\<forall>j\<le>length (c # cs). \<forall>b\<in>set alts. \<not> prefix b (drop j (c # cs))) \<longleftrightarrow>
        (\<forall>b\<in>set alts. \<not> prefix b (c # cs)) \<and> (\<forall>j\<le>length cs. \<forall>b\<in>set alts. \<not> prefix b (drop j cs))"
    (is "?L \<longleftrightarrow> ?R")
  proof
    assume L: ?L
    have "\<forall>b\<in>set alts. \<not> prefix b (c # cs)" using L[rule_format, of 0] by simp
    moreover have "\<forall>j\<le>length cs. \<forall>b\<in>set alts. \<not> prefix b (drop j cs)"
      using L[rule_format, of "Suc j" for j] by simp
    ultimately show ?R by blast
  next
    assume R: ?R
    show ?L
    proof (intro allI impI ballI)
      fix j b assume "j \<le> length (c # cs)" "b \<in> set alts"
      then show "\<not> prefix b (drop j (c # cs))" using R by (cases j) auto
    qed
  qed
  with 2 show ?case by (auto split: option.splits simp: find_None_iff dest: find_SomeD)
qed

text \<open>The match is at the leftmost position where some alternative occurs.\<close>

lemma re_search_leftmost:
  "re_search alts s = Some a \<Longrightarrow>
     \<exists>pre post. s = pre @ a @ post \<and>
       (\<forall>j<length pre. \<forall>b\<in>set alts. \<not> prefix b (drop j s))"
proof (induction alts s rule: re_search.induct)
  case (1 alts)
  then have "prefix a []" by (auto dest: find_SomeD)
  then show ?case by simp
next
  case (2 alts c cs)
  show ?case
  proof (cases "find (\<lambda>a. prefix a (c # cs)) alts")
    case (Some b)
    with 2 have "b = a" by simp
    with Some have "prefix a (c # cs)" by (auto dest: find_SomeD)
    then obtain post where "c # cs = a @ post" by (auto simp: prefix_def)
    then have "c # cs = [] @ a @ post \<and> (\<forall>j<length ([]::string). \<forall>b\<in>set alts. \<not> prefix b (drop j (c # cs)))"
      by simp
    then show ?thesis by blast
  next
    case None
    with 2 have "re_search alts cs = Some a" by simp
    with 2 None obtain pre post where pp: "cs = pre @ a @ post"
      and nomatch: "\<forall>j<length pre. \<forall>b\<in>set alts. \<not> prefix b (drop j cs)" by blast
    have "\<forall>j<length (c # pre). \<forall>b\<in>set alts. \<not> prefix b (drop j (c # cs))"
    proof (intro allI impI ballI)
      fix j b assume "j < length (c # pre)" "b \<in> set alts"
      then show "\<not> prefix b (drop j (c # cs))"
        using None nomatch by (cases j) (auto simp: find_None_iff)
    qed
    moreover have "c # cs = (c # pre) @ a @ post" using pp by simp
    ultimately show ?thesis by blast
  qed
qed

text \<open>
  When no alternative is a prefix of another one, at most one of them occurs at a
  position, so the search returns the alternative that occurs leftmost.
\<close>

lemma re_search_first_occurrence:
  assumes a: "a \<in> set alts"
    and s: "s = pre @ a @ post"
    and before: "\<forall>j<length pre. \<forall>b\<in>set alts. \<not> prefix b (drop j s)"
    and excl: "\<forall>b\<in>set alts. \<forall>b'\<in>set alts. prefix b b' \<longrightarrow> b = b'"
  shows "re_search alts s = Some a"
proof -
  have occ: "prefix a (drop (length pre) s)" using s by simp
  have "re_search alts s \<noteq> None"
  proof
    assume "re_search alts s = None"
    then have n: "\<forall>j\<le>length s. \<forall>b\<in>set alts. \<not> prefix b (drop j s)"
      by (simp only: re_search_None_iff)
    have "length pre \<le> length s" using s by simp
    with n a have "\<not> prefix a (drop (length pre) s)" by blast
    with occ show False by simp
  qed
  then obtain b where b: "re_search alts s = Some b" by auto
  then obtain pre' post' where s': "s = pre' @ b @ post'"
    and before': "\<forall>j<length pre'. \<forall>c\<in>set alts. \<not> prefix c (drop j s)"
    using re_search_leftmost by blast
  have bm: "b \<in> set alts" using b by (rule re_search_mem)
  have occ': "prefix b (drop (length pre') s)" using s' by simp
  have "length pre = length pre'"
  proof (rule ccontr)
    assume "length pre \<noteq> length pre'"
    then consider "length pre < length pre'" | "length pre' < length pre" by linarith
    then show False
    proof cases
      case 1 with before' a occ show False by blast
    next
      case 2 with before bm occ' show False by blast
    qed
  qed
  then have "prefix a (drop (length pre) s) \<and> prefix b (drop (length pre) s)"
    using occ occ' by simp
  then have "prefix a b \<or> prefix b a" using prefix_same_cases by blast
  then have "a = b" using excl a bm by blast
  with b show ?thesis by simp
qed

lemma categories_exclusive:
  "\<forall>b\<in>set categories. \<forall>b'\<in>set categories. prefix b b' \<longrightarrow> b = b'"
  by (simp add: categories_def)

section \<open>The scripted services\<close>

lemma scripted_llm:
  "llm (scripted answers chunks) history rq =
     (if length history < length answers then answers ! length history
      else Inl (Exn ''no answer''))"
  by (simp add: scripted_def)

lemma scripted_retriever: "retriever (scripted answers chunks) q = Inr chunks"
  by (simp add: scripted_def)

section \<open>Rendering a template\<close>

lemma scan_plain:
  "CHR ''{'' \<notin> set t \<Longrightarrow> CHR ''}'' \<notin> set t \<Longrightarrow>
     foldl (scan_step vars) (Text out) t = Text (out @ t)"
  by (induction t arbitrary: out) auto

text \<open>A text without braces renders to itself.\<close>

lemma format_template_plain:
  "CHR ''{'' \<notin> set t \<Longrightarrow> CHR ''}'' \<notin> set t \<Longrightarrow> format_template special vars t = Inr t"
  by (simp add: format_template_def scan_plain)

lemma classification_prompt_plain:
  "CHR ''{'' \<notin> set email \<Longrightarrow> CHR ''}'' \<notin> set email \<Longrightarrow>
     render_messages special vars (classification_prompt email) = Inr (classification_prompt email)"
  by (simp add: classification_prompt_def format_template_plain)

text \<open>
  The templates of the other prompts are fixed texts whose one field is bound by the
  call: they render for every email, with the email in the place of the field.
\<close>

lemma extraction_prompt_renders:
  "render_messages special [(''email_content'', email)] extraction_prompt =
     Inr [(System, ''You are an AI assistant that extracts equipment names from emails.''),
          (Human, ''Extract the name of the film equipment mentioned in the following email:\<newline>\<newline>''
                  @ email @ ''\<newline>\<newline>Equipment name:'')]"
  by (simp add: extraction_prompt_def format_template_def field_step_def)

lemma positive_review_prompt_renders:
  "render_messages special [(''review'', email)] positive_review_prompt =
     Inr [(System, ''You are responding to a positive review about a film equipment rental service. Thank the customer and encourage them to share their experience on social media.''),
          (Human, ''Positive review: '' @ email @ ''\<newline>\<newline>Response:'')]"
  by (simp add: positive_review_prompt_def format_template_def field_step_def)

lemma negative_review_prompt_renders:
  "render_messages special [(''review'', email)] negative_review_prompt =
     Inr [(Human, ''You are responding to a negative review about a film equipment rental service. Apologize for the inconvenience, offer a solution, and mention that a customer service representative will call them. Also, offer a gift voucher for their next rental. Review: '' @ email)]"
  by (simp add: negative_review_prompt_def format_template_def field_step_def)

section \<open>The classifier\<close>

lemma classify_email_unrendered:
  "render_messages (formatter sv) [(''email_content'', email)] (classification_prompt email) = Inl e
     \<Longrightarrow> classify_email sv email w = (''error'', w)"
  by (simp add: classify_email_def)

lemma classify_email_world:
  "render_messages (formatter sv) [(''email_content'', email)] (classification_prompt email) = Inr m
     \<Longrightarrow> snd (classify_email sv email w) =
           w\<lparr>llm_calls := llm_calls w @
                [Invoke (classification_prompt email) [(''email_content'', email)]]\<rparr>"
  by (simp add: classify_email_def invoke_def Let_def split: sum.splits option.splits)

lemma classify_email_raises:
  "llm sv (llm_calls w) (Invoke (classification_prompt email) [(''email_content'', email)]) = Inl e
     \<Longrightarrow> fst (classify_email sv email w) = ''error''"
  by (simp add: classify_email_def invoke_def split: sum.splits)

lemma classify_email_returns:
  "render_messages (formatter sv) [(''email_content'', email)] (classification_prompt email) = Inr m
     \<Longrightarrow> llm sv (llm_calls w) (Invoke (classification_prompt email) [(''email_content'', email)]) = Inr content
     \<Longrightarrow> fst (classify_email sv email w) =
           (case re_search categories (lower (strip content)) of
              Some c \<Rightarrow> c | None \<Rightarrow> ''error'')"
  by (simp add: classify_email_def invoke_def Let_def split: option.splits)

lemma classify_email_closed:
  "fst (classify_email sv email w) \<in> set categories \<union> {''error''}"
proof (cases "render_messages (formatter sv) [(''email_content'', email)] (classification_prompt email)")
  case (Inl e)
  then show ?thesis by (simp add: classify_email_unrendered)
next
  case rendered: (Inr m)
  show ?thesis
  proof (cases "llm sv (llm_calls w) (Invoke (classification_prompt email) [(''email_content'', email)])")
    case (Inl e)
    then show ?thesis by (simp add: classify_email_raises)
  next
    case (Inr content)
    show ?thesis
    proof (cases "re_search categories (lower (strip content))")
      case None
      with rendered Inr show ?thesis by (simp add: classify_email_returns)
    next
      case (Some c)
      then have "c \<in> set categories" by (rule re_search_mem)
      with rendered Inr Some show ?thesis by (simp add: classify_email_returns)
    qed
  qed
qed

text \<open>
  What \<open>classify_email\<close> does for every email. Its result is one of the four categories
  or \<open>error\<close>. When the prompt does not render, the result is \<open>error\<close> and no call is made.
  When it renders (as it does for every email without a brace), one call is made: if the
  call raises the result is \<open>error\<close>; if it returns, the text is trimmed and then
  lower-cased, and the result is the category that occurs leftmost in it, whatever stands
  before and after, or \<open>error\<close> when no category occurs anywhere in it.
\<close>

lemma classify_email_rendered:
  assumes rq: "rq = Invoke (classification_prompt email) [(''email_content'', email)]"
    and rd: "rd = render_messages (formatter sv) [(''email_content'', email)]
                    (classification_prompt email)"
  shows "fst (classify_email sv email w) \<in> set categories \<union> {''error''}
    \<and> (\<forall>e. rd = Inl e \<longrightarrow> classify_email sv email w = (''error'', w))
    \<and> (CHR ''{'' \<notin> set email \<and> CHR ''}'' \<notin> set email \<longrightarrow> rd = Inr (classification_prompt email))
    \<and> (\<forall>m. rd = Inr m \<longrightarrow>
          snd (classify_email sv email w) = w\<lparr>llm_calls := llm_calls w @ [rq]\<rparr>
          \<and> (\<forall>e. llm sv (llm_calls w) rq = Inl e \<longrightarrow> fst (classify_email sv email w) = ''error'')
          \<and> (\<forall>content pre c post.
                llm sv (llm_calls w) rq = Inr content \<and> c \<in> set categories
                \<and> lower (strip content) = pre @ c @ post
                \<and> (\<forall>j<length pre. \<forall>b\<in>set categories.
                      \<not> prefix b (drop j (lower (strip content))))
                \<longrightarrow> fst (classify_email sv email w) = c)
          \<and> (\<forall>content.
                llm sv (llm_calls w) rq = Inr content
                \<and> (\<forall>j\<le>length (lower (strip content)). \<forall>b\<in>set categories.
                      \<not> prefix b (drop j (lower (strip content))))
                \<longrightarrow> fst (classify_email sv email w) = ''error''))"
proof (intro conjI allI impI)
  show "fst (classify_email sv email w) \<in> set categories \<union> {''error''}"
    by (rule classify_email_closed)
next
  fix e assume "rd = Inl e"
  then show "classify_email sv email w = (''error'', w)"
    unfolding rd by (rule classify_email_unrendered)
next
  assume "CHR ''{'' \<notin> set email \<and> CHR ''}'' \<notin> set email"
  then show "rd = Inr (classification_prompt email)"
    unfolding rd by (simp add: classification_prompt_plain)
next
  fix m assume "rd = Inr m"
  then show "snd (classify_email sv email w) = w\<lparr>llm_calls := llm_calls w @ [rq]\<rparr>"
    unfolding rq rd by (rule classify_email_world)
next
  fix m e assume "llm sv (llm_calls w) rq = Inl e"
  then show "fst (classify_email sv email w) = ''error''"
    unfolding rq by (rule classify_email_raises)
next
  fix m content pre c post
  assume m: "rd = Inr m"
    and h: "llm sv (llm_calls w) rq = Inr content \<and> c \<in> set categories
          \<and> lower (strip content) = pre @ c @ post
          \<and> (\<forall>j<length pre. \<forall>b\<in>set categories. \<not> prefix b (drop j (lower (strip content))))"
  then have "re_search categories (lower (strip content)) = Some c"
    using re_search_first_occurrence [OF _ _ _ categories_exclusive] by blast
  with m h show "fst (classify_email sv email w) = c"
    unfolding rq rd by (simp add: classify_email_returns)
next
  fix m content
  assume m: "rd = Inr m"
    and h: "llm sv (llm_calls w) rq = Inr content
          \<and> (\<forall>j\<le>length (lower (strip content)). \<forall>b\<in>set categories.
                \<not> prefix b (drop j (lower (strip content))))"
  then have "re_search categories (lower (strip content)) = None"
    by (simp add: re_search_None_iff)
  with m h show "fst (classify_email sv email w) = ''error''"
    unfolding rq rd by (simp add: classify_email_returns)
qed

lemma sample_reply_normalised: "lower (strip ''  -> Positive_Review (not negative_review).  \<newline>'')
   = ''-> '' @ ''positive_review'' @ '' (not negative_review).''"
  by code_simp

lemma sample_reply_no_earlier_match: "\<forall>j<length ''-> ''. \<forall>b\<in>set categories. \<not> prefix b (drop j (''-> '' @ ''positive_review'' @ '' (not negative_review).''))"
  by (simp add: categories_def less_Suc_eq)

lemma classify_email_rendered_example:
  "fst (classify_email
          (scripted [Inr ''  -> Positive_Review (not negative_review).  \<newline>''] [])
          ''Great camera!'' w0) = ''positive_review''"
proof -
  let ?sv = "scripted [Inr ''  -> Positive_Review (not negative_review).  \<newline>''] []"
  let ?rq = "Invoke (classification_prompt ''Great camera!'') [(''email_content'', ''Great camera!'')]"
  have r: "render_messages (formatter ?sv) [(''email_content'', ''Great camera!'')]
             (classification_prompt ''Great camera!'') = Inr (classification_prompt ''Great camera!'')"
    by (simp add: classification_prompt_plain)
  have a: "llm ?sv (llm_calls w0) ?rq = Inr ''  -> Positive_Review (not negative_review).  \<newline>''"
    by (simp add: scripted_llm w0_def)
  have b: "''positive_review'' \<in> set categories" by (simp add: categories_def)
  note c = sample_reply_normalised
  have d: "\<forall>j<length ''-> ''. \<forall>b\<in>set categories.
             \<not> prefix b (drop j (lower (strip ''  -> Positive_Review (not negative_review).  \<newline>'')))"
    unfolding sample_reply_normalised by (rule sample_reply_no_earlier_match)
  from classify_email_rendered [OF refl refl, of ?sv "''Great camera!''" w0] r a b c d
  show ?thesis by blast
qed

text \<open>
  C2 at a concrete email. \<open>Is {this} ok?\<close> has a field that nothing binds, and \<open>smile :-}\<close>
  has a closing brace that closes nothing: for either one, whatever the services are,
  the prompt does not render, no call is made and the result is \<open>error\<close>, so no reply is
  trimmed, lower-cased or searched. The Completion Service of the run below answers the
  request for \<open>Is {this} ok?\<close> with \<open>positive_review\<close>, and \<open>classify_email\<close> returns that
  category for the same email without the braces. The name extractor, whose template
  has the field \<open>{email_content}\<close> and gets the email as its binding, does make its call
  on \<open>Is {this} ok?\<close>.
\<close>

theorem classify_email_brace_email:
  "classify_email sv ''Is {this} ok?'' w = (''error'', w)
   \<and> classify_email sv ''smile :-}'' w = (''error'', w)
   \<and> llm (scripted [Inr ''positive_review''] []) (llm_calls w0)
         (Invoke (classification_prompt ''Is {this} ok?'') [(''email_content'', ''Is {this} ok?'')])
       = Inr ''positive_review''
   \<and> llm_calls (snd (classify_email (scripted [Inr ''positive_review''] []) ''Is {this} ok?'' w0)) = []
   \<and> fst (classify_email (scripted [Inr ''positive_review''] []) ''Is this ok?'' w0)
       = ''positive_review''
   \<and> llm_calls (snd (classify_email (scripted [Inr ''positive_review''] []) ''Is this ok?'' w0))
       = [Invoke (classification_prompt ''Is this ok?'') [(''email_content'', ''Is this ok?'')]]
   \<and> extract_equipment_name (scripted [Inr ''RED DSMC 2''] []) ''Is {this} ok?'' w0
       = (Some ''RED DSMC 2'',
          w0\<lparr>llm_calls := [Invoke extraction_prompt [(''email_content'', ''Is {this} ok?'')]]\<rparr>)"
proof -
  have 1: "classify_email sv ''Is {this} ok?'' w = (''error'', w)"
    by (simp add: classify_email_def classification_prompt_def format_template_def
          field_step_def)
  have 2: "classify_email sv ''smile :-}'' w = (''error'', w)"
    by (simp add: classify_email_def classification_prompt_def format_template_def
          field_step_def)
  have 3: "llm (scripted [Inr ''positive_review''] []) (llm_calls w0)
         (Invoke (classification_prompt ''Is {this} ok?'') [(''email_content'', ''Is {this} ok?'')])
       = Inr ''positive_review''
   \<and> llm_calls (snd (classify_email (scripted [Inr ''positive_review''] []) ''Is {this} ok?'' w0)) = []
   \<and> fst (classify_email (scripted [Inr ''positive_review''] []) ''Is this ok?'' w0)
       = ''positive_review''
   \<and> llm_calls (snd (classify_email (scripted [Inr ''positive_review''] []) ''Is this ok?'' w0))
       = [Invoke (classification_prompt ''Is this ok?'') [(''email_content'', ''Is this ok?'')]]
   \<and> extract_equipment_name (scripted [Inr ''RED DSMC 2''] []) ''Is {this} ok?'' w0
       = (Some ''RED DSMC 2'',
          w0\<lparr>llm_calls := [Invoke extraction_prompt [(''email_content'', ''Is {this} ok?'')]]\<rparr>)"
    by code_simp
  from 1 2 3 show ?thesis by blast
qed

section \<open>The router\<close>

lemma handle_email_category_closed:
  "fst (fst (handle_email other sv email w))
     \<in> set categories \<union> {''forward_to_customer_service'', ''error''}"
proof (cases "classify_email sv email w")
  case (Pair cat w1)
  then show ?thesis
    by (simp add: handle_email_def handle_email_try_def categories_def
             split: prod.splits sum.splits)
qed

lemma handle_email_forward:
  "classify_email sv email w = (cat, w1) \<Longrightarrow> cat \<notin> set categories \<Longrightarrow>
     handle_email other sv email w = ((''forward_to_customer_service'', forward_message), w1)"
  by (simp add: handle_email_def handle_email_try_def categories_def)

lemma handle_email_positive:
  "classify_email sv email w = (''positive_review'', w1) \<Longrightarrow>
     handle_email other sv email w =
       (case handle_positive_review sv email w1 of
          (Inl e, w2) \<Rightarrow> ((''error'', error_message), w2)
        | (Inr r, w2) \<Rightarrow> ((''positive_review'', r), w2))"
  by (simp add: handle_email_def handle_email_try_def split: prod.splits sum.splits)

lemma handle_email_negative:
  "classify_email sv email w = (''negative_review'', w1) \<Longrightarrow>
     handle_email other sv email w =
       (case invoke sv (Invoke negative_review_prompt [(''review'', email)]) w1 of
          (Inl e, w2) \<Rightarrow> ((''error'', error_message), w2)
        | (Inr content, w2) \<Rightarrow> ((''negative_review'', content), w2))"
  by (simp add: handle_email_def handle_email_try_def split: prod.splits sum.splits)

lemma handle_email_price:
  "classify_email sv email w = (''price_availability_inquiry'', w1) \<Longrightarrow>
     handle_email other sv email w =
       (case handle_price_availability_inquiry other sv email w1 of
          (r, w2) \<Rightarrow> ((''price_availability_inquiry'', r), w2))"
  by (simp add: handle_email_def handle_email_try_def split: prod.splits sum.splits)

lemma handle_email_general:
  "classify_email sv email w = (''general_inquiry'', w1) \<Longrightarrow>
     handle_email other sv email w =
       (case handle_general_inquiry sv email w1 of
          (Inl e, w2) \<Rightarrow> ((''error'', error_message), w2)
        | (Inr r, w2) \<Rightarrow> ((''general_inquiry'', r), w2))"
  by (simp add: handle_email_def handle_email_try_def split: prod.splits sum.splits)

lemma handle_email_classifier_raises:
  assumes "llm sv (llm_calls w) (Invoke (classification_prompt email) [(''email_content'', email)]) = Inl e"
  shows "handle_email other sv email w =
           ((''forward_to_customer_service'', forward_message), snd (classify_email sv email w))"
proof -
  have "fst (classify_email sv email w) = ''error''"
    using assms by (rule classify_email_raises)
  then have "classify_email sv email w = (''error'', snd (classify_email sv email w))"
    by (simp add: prod_eq_iff)
  moreover have "''error'' \<notin> set categories" by (simp add: categories_def)
  ultimately show ?thesis by (rule handle_email_forward)
qed

text \<open>
  C1, as the claim states it, fails: the classifier succeeds with \<open>positive_review\<close>, the
  call of the review handler raises, and the category returned is \<open>error\<close>, which is none
  of the four categories.
\<close>

theorem handle_email_category_counterexample:
  "fst (classify_email (scripted [Inr ''positive_review'', Inl (Exn ''timeout'')] [])
          ''Great camera!'' w0) = ''positive_review''
   \<and> ''positive_review'' \<in> set categories
   \<and> fst (handle_email (\<lambda>x. []) (scripted [Inr ''positive_review'', Inl (Exn ''timeout'')] [])
            ''Great camera!'' w0) = (''error'', error_message)
   \<and> ''error'' \<notin> set categories"
  by code_simp

text \<open>
  C1, amended. \<open>handle_email\<close> returns one pair and raises nothing. Its category is one of
  the four categories, \<open>forward_to_customer_service\<close> or \<open>error\<close>. When the classifier gives
  none of the four categories the pair is \<open>forward_to_customer_service\<close> with the fixed
  message. When it gives one of the four, the pair is that category with the text of its
  handler if the handler returns, and \<open>error\<close> with the fixed apology if the handler raises
  (the price and availability handler never raises).
\<close>

theorem handle_email_outcomes:
  assumes c: "classify_email sv email w = (cat, w1)"
  shows "fst (fst (handle_email other sv email w))
           \<in> set categories \<union> {''forward_to_customer_service'', ''error''}
    \<and> (cat \<notin> set categories \<longrightarrow>
         handle_email other sv email w = ((''forward_to_customer_service'', forward_message), w1))
    \<and> (cat = ''positive_review'' \<longrightarrow>
         handle_email other sv email w =
           (case handle_positive_review sv email w1 of
              (Inl e, w2) \<Rightarrow> ((''error'', error_message), w2)
            | (Inr r, w2) \<Rightarrow> ((''positive_review'', r), w2)))
    \<and> (cat = ''negative_review'' \<longrightarrow>
         handle_email other sv email w =
           (case invoke sv (Invoke negative_review_prompt [(''review'', email)]) w1 of
              (Inl e, w2) \<Rightarrow> ((''error'', error_message), w2)
            | (Inr content, w2) \<Rightarrow> ((''negative_review'', content), w2)))
    \<and> (cat = ''price_availability_inquiry'' \<longrightarrow>
         handle_email other sv email w =
           (case handle_price_availability_inquiry other sv email w1 of
              (r, w2) \<Rightarrow> ((''price_availability_inquiry'', r), w2)))
    \<and> (cat = ''general_inquiry'' \<longrightarrow>
         handle_email other sv email w =
           (case handle_general_inquiry sv email w1 of
              (Inl e, w2) \<Rightarrow> ((''error'', error_message), w2)
            | (Inr r, w2) \<Rightarrow> ((''general_inquiry'', r), w2)))"
proof (intro conjI impI)
  show "fst (fst (handle_email other sv email w))
           \<in> set categories \<union> {''forward_to_customer_service'', ''error''}"
    by (rule handle_email_category_closed)
next
  assume "cat \<notin> set categories"
  with c show "handle_email other sv email w =
      ((''forward_to_customer_service'', forward_message), w1)"
    by (rule handle_email_forward)
next
  assume "cat = ''positive_review''"
  with c show "handle_email other sv email w =
           (case handle_positive_review sv email w1 of
              (Inl e, w2) \<Rightarrow> ((''error'', error_message), w2)
            | (Inr r, w2) \<Rightarrow> ((''positive_review'', r), w2))"
    by (simp only: handle_email_positive)
next
  assume "cat = ''negative_review''"
  with c show "handle_email other sv email w =
           (case invoke sv (Invoke negative_review_prompt [(''review'', email)]) w1 of
              (Inl e, w2) \<Rightarrow> ((''error'', error_message), w2)
            | (Inr content, w2) \<Rightarrow> ((''negative_review'', content), w2))"
    by (simp only: handle_email_negative)
next
  assume "cat = ''price_availability_inquiry''"
  with c show "handle_email other sv email w =
           (case handle_price_availability_inquiry other sv email w1 of
              (r, w2) \<Rightarrow> ((''price_availability_inquiry'', r), w2))"
    by (simp only: handle_email_price)
next
  assume "cat = ''general_inquiry''"
  with c show "handle_email other sv email w =
           (case handle_general_inquiry sv email w1 of
              (Inl e, w2) \<Rightarrow> ((''error'', error_message), w2)
            | (Inr r, w2) \<Rightarrow> ((''general_inquiry'', r), w2))"
    by (simp only: handle_email_general)
qed

theorem handle_email_outcomes_witness:
  "fst (handle_email (\<lambda>x. []) (scripted [Inr ''positive_review'', Inr '' Thank you! \<newline>''] [])
          ''Great camera!'' w0) = (''positive_review'', ''Thank you!'')"
proof -
  let ?sv = "scripted [Inr ''positive_review'', Inr '' Thank you! \<newline>''] []"
  obtain cat w1 where c: "classify_email ?sv ''Great camera!'' w0 = (cat, w1)"
    by (cases "classify_email ?sv ''Great camera!'' w0")
  have "fst (classify_email ?sv ''Great camera!'' w0) = ''positive_review''"
    by code_simp
  with c have cat: "cat = ''positive_review''" by simp
  have "snd (classify_email ?sv ''Great camera!'' w0) =
          w0\<lparr>llm_calls := llm_calls w0 @
            [Invoke (classification_prompt ''Great camera!'')
                    [(''email_content'', ''Great camera!'')]]\<rparr>"
    by (rule classify_email_world [OF classification_prompt_plain]) simp_all
  with c have w1: "w1 = w0\<lparr>llm_calls := llm_calls w0 @
            [Invoke (classification_prompt ''Great camera!'')
                    [(''email_content'', ''Great camera!'')]]\<rparr>" by simp
  obtain r w2 where h: "handle_positive_review ?sv ''Great camera!'' w1 = (r, w2)"
    by (cases "handle_positive_review ?sv ''Great camera!'' w1")
  have "fst (handle_positive_review ?sv ''Great camera!''
          (w0\<lparr>llm_calls := llm_calls w0 @
            [Invoke (classification_prompt ''Great camera!'')
                    [(''email_content'', ''Great camera!'')]]\<rparr>)) = Inr ''Thank you!''"
    by code_simp
  with h w1 have r: "r = Inr ''Thank you!''" by simp
  from handle_email_outcomes [OF c, of "\<lambda>x. []"] cat
  have "handle_email (\<lambda>x. []) ?sv ''Great camera!'' w0 =
          (case handle_positive_review ?sv ''Great camera!'' w1 of
              (Inl e, w2) \<Rightarrow> ((''error'', error_message), w2)
            | (Inr r, w2) \<Rightarrow> ((''positive_review'', r), w2))"
    by blast
  with h r show ?thesis by simp
qed

text \<open>
  C3, as the claim states it, fails: the classifier's call raises, and the router returns
  \<open>forward_to_customer_service\<close> with the forwarding message, not \<open>error\<close> with the apology.
\<close>

theorem classifier_failure_counterexample:
  "llm (scripted [Inl (Exn ''timeout'')] []) (llm_calls w0)
       (Invoke (classification_prompt ''Hello'') [(''email_content'', ''Hello'')])
     = Inl (Exn ''timeout'')
   \<and> fst (handle_email (\<lambda>x. []) (scripted [Inl (Exn ''timeout'')] []) ''Hello'' w0)
       = (''forward_to_customer_service'', forward_message)
   \<and> fst (handle_email (\<lambda>x. []) (scripted [Inl (Exn ''timeout'')] []) ''Hello'' w0)
       \<noteq> (''error'', error_message)"
  by code_simp

text \<open>
  C3, amended. When the classifier's call to the Completion Service raises, \<open>handle_email\<close>
  raises nothing and returns \<open>forward_to_customer_service\<close> with the fixed forwarding
  message. The state it leaves is the one after that call when the classification prompt
  renders, and the one it started from when the prompt does not render (then no call is
  made, and the pair is the same).
\<close>

theorem handle_email_classifier_failure:
  assumes "llm sv (llm_calls w) (Invoke (classification_prompt email) [(''email_content'', email)]) = Inl e"
  shows "fst (handle_email other sv email w) = (''forward_to_customer_service'', forward_message)
    \<and> (\<forall>m. render_messages (formatter sv) [(''email_content'', email)]
               (classification_prompt email) = Inr m \<longrightarrow>
           handle_email other sv email w =
             ((''forward_to_customer_service'', forward_message),
              w\<lparr>llm_calls := llm_calls w @
                   [Invoke (classification_prompt email) [(''email_content'', email)]]\<rparr>))
    \<and> (\<forall>e'. render_messages (formatter sv) [(''email_content'', email)]
               (classification_prompt email) = Inl e' \<longrightarrow>
           handle_email other sv email w =
             ((''forward_to_customer_service'', forward_message), w))"
proof -
  have h: "handle_email other sv email w =
             ((''forward_to_customer_service'', forward_message), snd (classify_email sv email w))"
    using assms by (rule handle_email_classifier_raises)
  show ?thesis
  proof (intro conjI allI impI)
    show "fst (handle_email other sv email w) = (''forward_to_customer_service'', forward_message)"
      by (simp add: h)
  next
    fix m
    assume "render_messages (formatter sv) [(''email_content'', email)]
               (classification_prompt email) = Inr m"
    then have "snd (classify_email sv email w) =
        w\<lparr>llm_calls := llm_calls w @
             [Invoke (classification_prompt email) [(''email_content'', email)]]\<rparr>"
      by (rule classify_email_world)
    then show "handle_email other sv email w =
             ((''forward_to_customer_service'', forward_message),
              w\<lparr>llm_calls := llm_calls w @
                   [Invoke (classification_prompt email) [(''email_content'', email)]]\<rparr>)"
      by (simp only: h)
  next
    fix e'
    assume "render_messages (formatter sv) [(''email_content'', email)]
               (classification_prompt email) = Inl e'"
    then have "classify_email sv email w = (''error'', w)"
      by (rule classify_email_unrendered)
    then show "handle_email other sv email w =
             ((''forward_to_customer_service'', forward_message), w)"
      by (simp add: h)
  qed
qed

theorem handle_email_classifier_failure_witness:
  "handle_email (\<lambda>x. []) (scripted [Inl (Exn ''timeout'')] []) ''Hello'' w0 =
     ((''forward_to_customer_service'', forward_message),
      w0\<lparr>llm_calls := llm_calls w0 @
           [Invoke (classification_prompt ''Hello'') [(''email_content'', ''Hello'')]]\<rparr>)"
proof -
  have a: "llm (scripted [Inl (Exn ''timeout'')] []) (llm_calls w0)
          (Invoke (classification_prompt ''Hello'') [(''email_content'', ''Hello'')])
        = Inl (Exn ''timeout'')"
    by (simp add: scripted_llm w0_def)
  have b: "render_messages (formatter (scripted [Inl (Exn ''timeout'')] []))
             [(''email_content'', ''Hello'')] (classification_prompt ''Hello'')
           = Inr (classification_prompt ''Hello'')"
    by (simp add: classification_prompt_plain)
  from handle_email_classifier_failure [OF a, of "\<lambda>x. []"] b show ?thesis by blast
qed

section \<open>The price and availability handler\<close>

lemma handle_price_null:
  assumes "llm sv (llm_calls w) (Invoke extraction_prompt [(''email_content'', email)]) = Inl e"
  shows "handle_price_availability_inquiry other sv email w =
           (fallback_message,
            w\<lparr>llm_calls := llm_calls w @ [Invoke extraction_prompt [(''email_content'', email)]]\<rparr>)"
  using assms
  by (simp add: handle_price_availability_inquiry_def extract_equipment_name_def invoke_def)

lemma handle_price_empty:
  assumes "llm sv (llm_calls w) (Invoke extraction_prompt [(''email_content'', email)]) = Inr content"
    and "strip content = []"
  shows "handle_price_availability_inquiry other sv email w =
           (fallback_message,
            w\<lparr>llm_calls := llm_calls w @ [Invoke extraction_prompt [(''email_content'', email)]]\<rparr>)"
  using assms
  by (simp add: handle_price_availability_inquiry_def extract_equipment_name_def invoke_def)

lemma handle_price_match:
  assumes "llm sv (llm_calls w) (Invoke extraction_prompt [(''email_content'', email)]) = Inr content"
    and "strip content \<noteq> []"
    and "find (\<lambda>e. name e = strip content) (catalog w) = Some e"
  shows "handle_price_availability_inquiry other sv email w =
           (match_message other e,
            w\<lparr>llm_calls := llm_calls w @ [Invoke extraction_prompt [(''email_content'', email)]],
               db_queries := db_queries w @ [strip content]\<rparr>)"
  using assms
  by (simp add: handle_price_availability_inquiry_def extract_equipment_name_def invoke_def
        query_first_by_name_def)

lemma handle_price_no_match:
  assumes "llm sv (llm_calls w) (Invoke extraction_prompt [(''email_content'', email)]) = Inr content"
    and "strip content \<noteq> []"
    and "find (\<lambda>e. name e = strip content) (catalog w) = None"
  shows "handle_price_availability_inquiry other sv email w =
           (no_match_message (strip content),
            w\<lparr>llm_calls := llm_calls w @ [Invoke extraction_prompt [(''email_content'', email)]],
               db_queries := db_queries w @ [strip content]\<rparr>)"
  using assms
  by (simp add: handle_price_availability_inquiry_def extract_equipment_name_def invoke_def
        query_first_by_name_def)

lemma float_str_50: "float_str other 50 = ''50.0''"
proof -
  have "show_nat 50 = ''50''" by code_simp
  then show ?thesis by (simp add: float_str_def)
qed

lemma seeded_catalog:
  "catalog (add_sample_data w0) =
     [\<lparr>equipment_id = 1, name = ''RED DSMC 2'', category = ''Cameras'', price = 850, available = Some True\<rparr>,
      \<lparr>equipment_id = 2, name = ''Canon EF 24-70mm'', category = ''Lenses'', price = 50, available = Some True\<rparr>,
      \<lparr>equipment_id = 3, name = ''DJI Ronin-S'', category = ''Stabilizers'', price = 75, available = Some False\<rparr>,
      \<lparr>equipment_id = 4, name = ''ARRI SkyPanel S60-C'', category = ''Lighting'', price = 200, available = Some True\<rparr>]"
  by (simp add: add_sample_data_def sample_equipment_def w0_def query_first_by_name_def
        session_add_def next_id_def)

text \<open>
  C4. When the extracted name is the name of a row of the table, the answer is
  \<open>The {name} is {available|not available} for rent at ${price} per day.\<close>, with
  \<open>available\<close> exactly when the row's availability field is true. For the row
  \<open>Canon EF 24-70mm\<close> with price 50.00 and availability true the answer contains
  \<open>available for rent at $50.0 per day\<close>.
\<close>

theorem price_availability_match:
  assumes "llm sv (llm_calls w) (Invoke extraction_prompt [(''email_content'', email)]) = Inr content"
    and "strip content = n" and "n \<noteq> []"
    and "find (\<lambda>e. name e = n) (catalog w) = Some e"
  shows "name e = n
    \<and> fst (handle_price_availability_inquiry other sv email w) =
        ''The '' @ n @ '' is ''
          @ (if available e = Some True then ''available'' else ''not available'')
          @ '' for rent at $'' @ float_str other (price e) @ '' per day.''
    \<and> (n = ''Canon EF 24-70mm'' \<and> price e = 50 \<and> available e = Some True \<longrightarrow>
         fst (handle_price_availability_inquiry other sv email w) =
           ''The Canon EF 24-70mm is '' @ ''available for rent at $50.0 per day'' @ ''.'')"
proof -
  have n: "name e = n" using assms(4) by (auto dest: find_SomeD)
  have "fst (handle_price_availability_inquiry other sv email w) = match_message other e"
    using assms by (simp add: handle_price_match)
  then have r: "fst (handle_price_availability_inquiry other sv email w) =
        ''The '' @ n @ '' is ''
          @ (if available e = Some True then ''available'' else ''not available'')
          @ '' for rent at $'' @ float_str other (price e) @ '' per day.''"
    using n by (simp add: match_message_def)
  show ?thesis
  proof (intro conjI impI)
    show "name e = n" by (rule n)
    show "fst (handle_price_availability_inquiry other sv email w) =
        ''The '' @ n @ '' is ''
          @ (if available e = Some True then ''available'' else ''not available'')
          @ '' for rent at $'' @ float_str other (price e) @ '' per day.''" by (rule r)
  next
    assume "n = ''Canon EF 24-70mm'' \<and> price e = 50 \<and> available e = Some True"
    then show "fst (handle_price_availability_inquiry other sv email w) =
           ''The Canon EF 24-70mm is '' @ ''available for rent at $50.0 per day'' @ ''.''"
      unfolding r by (simp add: float_str_50)
  qed
qed

theorem price_availability_match_witness:
  "fst (handle_price_availability_inquiry (\<lambda>x. [])
          (scripted [Inr '' Canon EF 24-70mm\<newline>''] [])
          ''Is the Canon EF 24-70mm lens available for rent?'' (add_sample_data w0))
     = ''The Canon EF 24-70mm is available for rent at $50.0 per day.''"
proof -
  let ?e = "\<lparr>equipment_id = 2, name = ''Canon EF 24-70mm'', category = ''Lenses'',
             price = 50, available = Some True\<rparr>"
  have a: "llm (scripted [Inr '' Canon EF 24-70mm\<newline>''] []) (llm_calls (add_sample_data w0))
             (Invoke extraction_prompt
               [(''email_content'', ''Is the Canon EF 24-70mm lens available for rent?'')])
           = Inr '' Canon EF 24-70mm\<newline>''"
    by (simp add: scripted_llm add_sample_data_def sample_equipment_def w0_def
          query_first_by_name_def session_add_def)
  have b: "strip '' Canon EF 24-70mm\<newline>'' = ''Canon EF 24-70mm''" by code_simp
  have c: "''Canon EF 24-70mm'' \<noteq> []" by simp
  have d: "find (\<lambda>e. name e = ''Canon EF 24-70mm'') (catalog (add_sample_data w0)) = Some ?e"
    by (simp add: seeded_catalog)
  from price_availability_match [OF a b c d, of "\<lambda>x. []"] show ?thesis
    by (simp add: float_str_50)
qed

lemma find_None_names: "find (\<lambda>e. name e = n) rows = None \<longleftrightarrow> (\<forall>e\<in>set rows. name e \<noteq> n)"
  by (auto simp: find_None_iff)

text \<open>
  C5. The lookup is by equality of names. When the extracted name equals the name of no
  row, the answer is the apology that names it, and no price is reported; a price is
  reported only from a row whose name equals the extracted name. In the seeded table the
  name \<open>RED DSMC2\<close> finds nothing, although the row \<open>RED DSMC 2\<close> is there.
\<close>

theorem price_availability_exact_match:
  assumes "llm sv (llm_calls w) (Invoke extraction_prompt [(''email_content'', email)]) = Inr content"
    and "strip content = n" and "n \<noteq> []"
  shows "((\<forall>e\<in>set (catalog w). name e \<noteq> n) \<longrightarrow>
            fst (handle_price_availability_inquiry other sv email w) = no_match_message n)
    \<and> (fst (handle_price_availability_inquiry other sv email w) = no_match_message n
        \<or> (\<exists>e\<in>set (catalog w). name e = n
              \<and> fst (handle_price_availability_inquiry other sv email w) = match_message other e))
    \<and> (catalog w = catalog (add_sample_data w0) \<and> n = ''RED DSMC2'' \<longrightarrow>
          ''RED DSMC 2'' \<in> name ` set (catalog w)
          \<and> fst (handle_price_availability_inquiry other sv email w) =
              ''We're sorry, but we don't have information about RED DSMC2 in our database. Please contact our customer service for more details.'')"
proof (intro conjI impI)
  assume "\<forall>e\<in>set (catalog w). name e \<noteq> n"
  then have "find (\<lambda>e. name e = strip content) (catalog w) = None"
    using assms(2) by (simp add: find_None_names)
  then show "fst (handle_price_availability_inquiry other sv email w) = no_match_message n"
    using assms by (simp add: handle_price_no_match)
next
  show "fst (handle_price_availability_inquiry other sv email w) = no_match_message n
        \<or> (\<exists>e\<in>set (catalog w). name e = n
              \<and> fst (handle_price_availability_inquiry other sv email w) = match_message other e)"
  proof (cases "find (\<lambda>e. name e = strip content) (catalog w)")
    case None
    then show ?thesis using assms by (simp add: handle_price_no_match)
  next
    case (Some e)
    then have "e \<in> set (catalog w) \<and> name e = n" using assms(2) by (auto dest: find_SomeD)
    moreover have "fst (handle_price_availability_inquiry other sv email w) = match_message other e"
      using Some assms by (simp add: handle_price_match)
    ultimately show ?thesis by blast
  qed
next
  assume h: "catalog w = catalog (add_sample_data w0) \<and> n = ''RED DSMC2''"
  then show "''RED DSMC 2'' \<in> name ` set (catalog w)" by (simp add: seeded_catalog)
next
  assume h: "catalog w = catalog (add_sample_data w0) \<and> n = ''RED DSMC2''"
  then have "find (\<lambda>e. name e = strip content) (catalog w) = None"
    using assms(2) by (simp add: seeded_catalog)
  then have "fst (handle_price_availability_inquiry other sv email w) = no_match_message n"
    using assms by (simp add: handle_price_no_match)
  then show "fst (handle_price_availability_inquiry other sv email w) =
              ''We're sorry, but we don't have information about RED DSMC2 in our database. Please contact our customer service for more details.''"
    using h by (simp add: no_match_message_def)
qed

theorem price_availability_exact_match_witness:
  "fst (handle_price_availability_inquiry (\<lambda>x. []) (scripted [Inr ''RED DSMC2''] [])
          ''How much is the RED DSMC2?'' (add_sample_data w0))
     = ''We're sorry, but we don't have information about RED DSMC2 in our database. Please contact our customer service for more details.''
   \<and> fst (handle_price_availability_inquiry (\<lambda>x. []) (scripted [Inr ''canon ef 24-70mm''] [])
          ''How much is the canon ef 24-70mm?'' (add_sample_data w0))
     = no_match_message ''canon ef 24-70mm''"
proof -
  have a: "llm (scripted [Inr ''RED DSMC2''] []) (llm_calls (add_sample_data w0))
             (Invoke extraction_prompt [(''email_content'', ''How much is the RED DSMC2?'')])
           = Inr ''RED DSMC2''"
    by (simp add: scripted_llm add_sample_data_def sample_equipment_def w0_def
          query_first_by_name_def session_add_def)
  have b: "strip ''RED DSMC2'' = ''RED DSMC2''" by code_simp
  have c: "''RED DSMC2'' \<noteq> []" by simp
  have a': "llm (scripted [Inr ''canon ef 24-70mm''] []) (llm_calls (add_sample_data w0))
             (Invoke extraction_prompt [(''email_content'', ''How much is the canon ef 24-70mm?'')])
           = Inr ''canon ef 24-70mm''"
    by (simp add: scripted_llm add_sample_data_def sample_equipment_def w0_def
          query_first_by_name_def session_add_def)
  have b': "strip ''canon ef 24-70mm'' = ''canon ef 24-70mm''" by code_simp
  have c': "''canon ef 24-70mm'' \<noteq> []" by simp
  have d': "\<forall>e\<in>set (catalog (add_sample_data w0)). name e \<noteq> ''canon ef 24-70mm''"
    by (simp add: seeded_catalog)
  from price_availability_exact_match [OF a b c, of "\<lambda>x. []"]
  have "fst (handle_price_availability_inquiry (\<lambda>x. []) (scripted [Inr ''RED DSMC2''] [])
          ''How much is the RED DSMC2?'' (add_sample_data w0))
     = ''We're sorry, but we don't have information about RED DSMC2 in our database. Please contact our customer service for more details.''"
    by blast
  moreover from price_availability_exact_match [OF a' b' c', of "\<lambda>x. []"] d'
  have "fst (handle_price_availability_inquiry (\<lambda>x. []) (scripted [Inr ''canon ef 24-70mm''] [])
          ''How much is the canon ef 24-70mm?'' (add_sample_data w0))
     = no_match_message ''canon ef 24-70mm''"
    by blast
  ultimately show ?thesis by blast
qed

text \<open>
  C7. When the extractor returns nothing (its call raised), the handler returns the fixed
  fallback text and asks the table nothing. When the extractor returns a name that no
  row has, the handler returns the apology with that name in it. Both texts send the
  reader to customer service. The handler has no exception to raise, and the router
  keeps the category \<open>price_availability_inquiry\<close> whatever the handler found.
\<close>

theorem price_availability_miss:
  "(\<forall>e. llm sv (llm_calls w) (Invoke extraction_prompt [(''email_content'', email)]) = Inl e \<longrightarrow>
      fst (handle_price_availability_inquiry other sv email w) = fallback_message
      \<and> db_queries (snd (handle_price_availability_inquiry other sv email w)) = db_queries w)
   \<and> (\<forall>content.
        llm sv (llm_calls w) (Invoke extraction_prompt [(''email_content'', email)]) = Inr content
        \<and> strip content \<noteq> []
        \<and> find (\<lambda>e. name e = strip content) (catalog w) = None \<longrightarrow>
        fst (handle_price_availability_inquiry other sv email w) =
          ''We're sorry, but we don't have information about '' @ strip content
            @ '' in our database. Please contact our customer service for more details.'')
   \<and> sublist ''Please contact our customer service'' fallback_message
   \<and> (\<forall>n. sublist ''Please contact our customer service'' (no_match_message n)
          \<and> sublist n (no_match_message n))
   \<and> (\<forall>w' w1. classify_email sv email w' = (''price_availability_inquiry'', w1) \<longrightarrow>
         handle_email other sv email w' =
           ((''price_availability_inquiry'',
             fst (handle_price_availability_inquiry other sv email w1)),
            snd (handle_price_availability_inquiry other sv email w1)))"
proof (intro conjI allI impI)
  fix e assume e: "llm sv (llm_calls w) (Invoke extraction_prompt [(''email_content'', email)]) = Inl e"
  then show "fst (handle_price_availability_inquiry other sv email w) = fallback_message"
    by (simp add: handle_price_null)
  from e show "db_queries (snd (handle_price_availability_inquiry other sv email w)) = db_queries w"
    by (simp add: handle_price_null)
next
  fix content
  assume "llm sv (llm_calls w) (Invoke extraction_prompt [(''email_content'', email)]) = Inr content
        \<and> strip content \<noteq> []
        \<and> find (\<lambda>e. name e = strip content) (catalog w) = None"
  then show "fst (handle_price_availability_inquiry other sv email w) =
          ''We're sorry, but we don't have information about '' @ strip content
            @ '' in our database. Please contact our customer service for more details.''"
    by (simp add: handle_price_no_match no_match_message_def)
next
  have "fallback_message =
      ''Thank you for your inquiry. We couldn't find specific information about the equipment you mentioned. ''
      @ ''Please contact our customer service'' @ '' for further assistance.''"
    by (simp add: fallback_message_def)
  then show "sublist ''Please contact our customer service'' fallback_message"
    unfolding sublist_def by blast
next
  fix n
  have "no_match_message n =
      (''We're sorry, but we don't have information about '' @ n @ '' in our database. '')
      @ ''Please contact our customer service'' @ '' for more details.''"
    by (simp add: no_match_message_def)
  then show "sublist ''Please contact our customer service'' (no_match_message n)"
    unfolding sublist_def by blast
  have "no_match_message n =
      ''We're sorry, but we don't have information about '' @ n
      @ '' in our database. Please contact our customer service for more details.''"
    by (simp add: no_match_message_def)
  then show "sublist n (no_match_message n)"
    unfolding sublist_def by blast
next
  fix w' w1 assume "classify_email sv email w' = (''price_availability_inquiry'', w1)"
  then show "handle_email other sv email w' =
           ((''price_availability_inquiry'',
             fst (handle_price_availability_inquiry other sv email w1)),
            snd (handle_price_availability_inquiry other sv email w1))"
    by (simp add: handle_email_price split: prod.splits)
qed

theorem price_availability_miss_witness:
  "fst (handle_price_availability_inquiry (\<lambda>x. []) (scripted [Inl (Exn ''timeout'')] [])
          ''How much is the crane?'' (add_sample_data w0)) = fallback_message
   \<and> fst (handle_price_availability_inquiry (\<lambda>x. []) (scripted [Inr ''Technocrane 22''] [])
          ''How much is the crane?'' (add_sample_data w0))
      = ''We're sorry, but we don't have information about Technocrane 22 in our database. Please contact our customer service for more details.''"
proof -
  have a: "llm (scripted [Inl (Exn ''timeout'')] []) (llm_calls (add_sample_data w0))
             (Invoke extraction_prompt [(''email_content'', ''How much is the crane?'')])
           = Inl (Exn ''timeout'')"
    by (simp add: scripted_llm add_sample_data_def sample_equipment_def w0_def
          query_first_by_name_def session_add_def)
  have b: "llm (scripted [Inr ''Technocrane 22''] []) (llm_calls (add_sample_data w0))
             (Invoke extraction_prompt [(''email_content'', ''How much is the crane?'')])
           = Inr ''Technocrane 22''"
    by (simp add: scripted_llm add_sample_data_def sample_equipment_def w0_def
          query_first_by_name_def session_add_def)
  have c: "strip ''Technocrane 22'' = ''Technocrane 22''" by code_simp
  have d: "find (\<lambda>e. name e = ''Technocrane 22'') (catalog (add_sample_data w0)) = None"
    by (simp add: seeded_catalog)
  from price_availability_miss [of "scripted [Inl (Exn ''timeout'')] []" "add_sample_data w0"
      "''How much is the crane?''" "\<lambda>x. []"] a
  have "fst (handle_price_availability_inquiry (\<lambda>x. []) (scripted [Inl (Exn ''timeout'')] [])
          ''How much is the crane?'' (add_sample_data w0)) = fallback_message"
    by blast
  moreover from price_availability_miss [of "scripted [Inr ''Technocrane 22''] []" "add_sample_data w0"
      "''How much is the crane?''" "\<lambda>x. []"] b c d
  have "fst (handle_price_availability_inquiry (\<lambda>x. []) (scripted [Inr ''Technocrane 22''] [])
          ''How much is the crane?'' (add_sample_data w0))
      = ''We're sorry, but we don't have information about Technocrane 22 in our database. Please contact our customer service for more details.''"
    by simp
  ultimately show ?thesis by blast
qed

text \<open>
  C10. An extraction that comes back as the empty string is handled as an extraction that
  came back with nothing: the table is not asked, and the result (text and state) is the
  fallback message after the one extraction call, the same as when that call raises.
\<close>

theorem price_availability_empty_name:
  assumes "llm sv (llm_calls w) (Invoke extraction_prompt [(''email_content'', email)]) = Inr content"
    and "strip content = []"
  shows "fst (extract_equipment_name sv email w) = Some []
    \<and> handle_price_availability_inquiry other sv email w =
        (fallback_message,
         w\<lparr>llm_calls := llm_calls w @ [Invoke extraction_prompt [(''email_content'', email)]]\<rparr>)
    \<and> db_queries (snd (handle_price_availability_inquiry other sv email w)) = db_queries w
    \<and> (\<forall>(sv'::services) e. llm sv' (llm_calls w) (Invoke extraction_prompt [(''email_content'', email)]) = Inl e
          \<longrightarrow> fst (extract_equipment_name sv' email w) = None
            \<and> handle_price_availability_inquiry other sv' email w =
                handle_price_availability_inquiry other sv email w)"
proof (intro conjI allI impI)
  show "fst (extract_equipment_name sv email w) = Some []"
    using assms by (simp add: extract_equipment_name_def invoke_def)
  show r: "handle_price_availability_inquiry other sv email w =
        (fallback_message,
         w\<lparr>llm_calls := llm_calls w @ [Invoke extraction_prompt [(''email_content'', email)]]\<rparr>)"
    using assms by (rule handle_price_empty)
  then show "db_queries (snd (handle_price_availability_inquiry other sv email w)) = db_queries w"
    by simp
  fix sv' :: services and e
  assume e: "llm sv' (llm_calls w) (Invoke extraction_prompt [(''email_content'', email)]) = Inl e"
  then show "fst (extract_equipment_name sv' email w) = None"
    by (simp add: extract_equipment_name_def invoke_def)
  from e show "handle_price_availability_inquiry other sv' email w =
                handle_price_availability_inquiry other sv email w"
    unfolding r by (rule handle_price_null)
qed

theorem price_availability_empty_name_witness:
  "handle_price_availability_inquiry (\<lambda>x. []) (scripted [Inr ''  \<newline> ''] [])
     ''How much is it?'' (add_sample_data w0)
   = (fallback_message,
      (add_sample_data w0)\<lparr>llm_calls := llm_calls (add_sample_data w0) @
          [Invoke extraction_prompt [(''email_content'', ''How much is it?'')]]\<rparr>)"
proof -
  have a: "llm (scripted [Inr ''  \<newline> ''] []) (llm_calls (add_sample_data w0))
             (Invoke extraction_prompt [(''email_content'', ''How much is it?'')])
           = Inr ''  \<newline> ''"
    by (simp add: scripted_llm add_sample_data_def sample_equipment_def w0_def
          query_first_by_name_def session_add_def)
  have b: "strip ''  \<newline> '' = []" by code_simp
  from price_availability_empty_name [OF a b, of "\<lambda>x. []"] show ?thesis by blast
qed

section \<open>Seeding\<close>

lemma add_all_present:
  "\<forall>e\<in>set es. \<exists>r\<in>set (catalog w). name r = name e \<Longrightarrow> catalog (add_all es w) = catalog w"
proof (induction es arbitrary: w)
  case Nil
  then show ?case by simp
next
  case (Cons e es)
  then obtain r where "r \<in> set (catalog w)" "name r = name e" by auto
  then have "find (\<lambda>x. name x = name e) (catalog w) \<noteq> None"
    by (auto simp: find_None_iff)
  then obtain x where x: "find (\<lambda>x. name x = name e) (catalog w) = Some x" by auto
  let ?w1 = "w\<lparr>db_queries := db_queries w @ [name e]\<rparr>"
  have "catalog (add_all es ?w1) = catalog ?w1"
    using Cons.prems by (intro Cons.IH) simp
  with x show ?case by (simp add: query_first_by_name_def)
qed

lemma add_all_names:
  "name ` set (catalog (add_all es w)) = name ` set (catalog w) \<union> name ` set es"
proof (induction es arbitrary: w)
  case Nil
  then show ?case by simp
next
  case (Cons e es)
  show ?case
  proof (cases "find (\<lambda>x. name x = name e) (catalog w)")
    case None
    then show ?thesis
      by (auto simp: query_first_by_name_def Cons.IH session_add_def)
  next
    case (Some x)
    then have "x \<in> set (catalog w) \<and> name x = name e" by (rule find_SomeD)
    then have "name e \<in> name ` set (catalog w)" by (metis imageI)
    with Some show ?thesis
      by (auto simp: query_first_by_name_def Cons.IH)
  qed
qed

lemma add_all_distinct:
  "distinct (map name (catalog w)) \<Longrightarrow> distinct (map name (catalog (add_all es w)))"
proof (induction es arbitrary: w)
  case Nil
  then show ?case by simp
next
  case (Cons e es)
  show ?case
  proof (cases "find (\<lambda>x. name x = name e) (catalog w)")
    case None
    then have "name e \<notin> name ` set (catalog w)" by (auto simp: find_None_iff)
    with Cons.prems
    have "distinct (map name (catalog (session_add e (w\<lparr>db_queries := db_queries w @ [name e]\<rparr>))))"
      by (simp add: session_add_def)
    then have "distinct (map name (catalog (add_all es
                 (session_add e (w\<lparr>db_queries := db_queries w @ [name e]\<rparr>)))))"
      by (rule Cons.IH)
    with None show ?thesis by (simp add: query_first_by_name_def)
  next
    case (Some x)
    from Cons.prems
    have "distinct (map name (catalog (add_all es (w\<lparr>db_queries := db_queries w @ [name e]\<rparr>))))"
      by (intro Cons.IH) simp
    with Some show ?thesis by (simp add: query_first_by_name_def)
  qed
qed

text \<open>
  C8. Seeding a table that already has a row for each sample name inserts nothing. So
  seeding twice leaves the table of the first seeding; a table with one row per name
  keeps one row per name; and two seedings of the empty table leave one row for each of
  the four sample names.
\<close>

theorem add_sample_data_idempotent:
  "((\<forall>s\<in>set sample_equipment. \<exists>r\<in>set (catalog w). name r = name s) \<longrightarrow>
       catalog (add_sample_data w) = catalog w)
   \<and> catalog (add_sample_data (add_sample_data w)) = catalog (add_sample_data w)
   \<and> (distinct (map name (catalog w)) \<longrightarrow>
        distinct (map name (catalog (add_sample_data w)))
        \<and> distinct (map name (catalog (add_sample_data (add_sample_data w)))))
   \<and> map name (catalog (add_sample_data (add_sample_data w0)))
       = [''RED DSMC 2'', ''Canon EF 24-70mm'', ''DJI Ronin-S'', ''ARRI SkyPanel S60-C'']"
proof (intro conjI impI)
  assume "\<forall>s\<in>set sample_equipment. \<exists>r\<in>set (catalog w). name r = name s"
  then show "catalog (add_sample_data w) = catalog w"
    unfolding add_sample_data_def by (rule add_all_present)
next
  have "name ` set sample_equipment \<subseteq> name ` set (catalog (add_sample_data w))"
    unfolding add_sample_data_def by (simp only: add_all_names) blast
  then have "\<forall>s\<in>set sample_equipment. \<exists>r\<in>set (catalog (add_sample_data w)). name r = name s"
    by (auto simp: image_iff subset_iff) metis
  then show twice: "catalog (add_sample_data (add_sample_data w)) = catalog (add_sample_data w)"
    unfolding add_sample_data_def by (rule add_all_present)
  assume "distinct (map name (catalog w))"
  then show d: "distinct (map name (catalog (add_sample_data w)))"
    unfolding add_sample_data_def by (rule add_all_distinct)
  then show "distinct (map name (catalog (add_sample_data (add_sample_data w))))"
    by (simp only: twice)
next
  have "name ` set sample_equipment \<subseteq> name ` set (catalog (add_sample_data w0))"
    unfolding add_sample_data_def by (simp only: add_all_names) blast
  then have "\<forall>s\<in>set sample_equipment. \<exists>r\<in>set (catalog (add_sample_data w0)). name r = name s"
    by (auto simp: image_iff subset_iff) metis
  then have "catalog (add_sample_data (add_sample_data w0)) = catalog (add_sample_data w0)"
    unfolding add_sample_data_def by (rule add_all_present)
  then show "map name (catalog (add_sample_data (add_sample_data w0)))
       = [''RED DSMC 2'', ''Canon EF 24-70mm'', ''DJI Ronin-S'', ''ARRI SkyPanel S60-C'']"
    by (simp add: seeded_catalog)
qed

theorem add_sample_data_idempotent_witness:
  "catalog (add_sample_data (add_sample_data w0)) = catalog (add_sample_data w0)
   \<and> distinct (map name (catalog (add_sample_data (add_sample_data w0))))
   \<and> length (catalog (add_sample_data (add_sample_data w0))) = 4"
proof -
  have a: "\<forall>s\<in>set sample_equipment. \<exists>r\<in>set (catalog (add_sample_data w0)). name r = name s"
    by (simp add: seeded_catalog sample_equipment_def)
  have b: "distinct (map name (catalog (add_sample_data w0)))"
    by (simp add: seeded_catalog)
  from add_sample_data_idempotent [of "add_sample_data w0"] a b
  have "catalog (add_sample_data (add_sample_data w0)) = catalog (add_sample_data w0)
      \<and> distinct (map name (catalog (add_sample_data (add_sample_data w0))))"
    by blast
  then show ?thesis by (simp add: seeded_catalog)
qed

section \<open>The general inquiry handler\<close>

lemma handle_general_inquiry_chunks:
  "retriever sv email = Inr chunks \<Longrightarrow>
     handle_general_inquiry sv email w =
       (llm sv (llm_calls w) (StuffQA chunks email),
        w\<lparr>kb_queries := kb_queries w @ [email],
           llm_calls := llm_calls w @ [StuffQA chunks email]\<rparr>)"
  by (simp add: handle_general_inquiry_def invoke_def Let_def)

text \<open>
  C9, as the claim states it, fails: with no chunk retrieved, a generation call that
  returns the empty text makes the handler return the empty string, and a generation
  call that raises makes the handler raise.
\<close>

theorem general_inquiry_counterexample:
  "retriever (scripted [Inr []] []) ''Do you ship abroad?'' = Inr []
   \<and> fst (handle_general_inquiry (scripted [Inr []] []) ''Do you ship abroad?'' w0) = Inr []
   \<and> retriever (scripted [Inl (Exn ''timeout'')] []) ''Do you ship abroad?'' = Inr []
   \<and> fst (handle_general_inquiry (scripted [Inl (Exn ''timeout'')] []) ''Do you ship abroad?'' w0)
       = Inl (Exn ''timeout'')"
  by code_simp

text \<open>
  C9, amended. When the retriever returns no chunk, \<open>handle_general_inquiry\<close> still makes
  the one generation call, on an empty context. If that call returns a text, the handler
  returns it unchanged (also when it is empty); if that call raises, the exception leaves
  the handler, and the router, which dispatched the email as \<open>general_inquiry\<close>, returns
  \<open>error\<close> with the fixed apology.
\<close>

theorem handle_general_inquiry_no_chunks:
  assumes "retriever sv email = Inr []"
  shows "handle_general_inquiry sv email w =
           (llm sv (llm_calls w) (StuffQA [] email),
            w\<lparr>kb_queries := kb_queries w @ [email],
               llm_calls := llm_calls w @ [StuffQA [] email]\<rparr>)
    \<and> (\<forall>answer. llm sv (llm_calls w) (StuffQA [] email) = Inr answer \<longrightarrow>
          fst (handle_general_inquiry sv email w) = Inr answer)
    \<and> (\<forall>e. llm sv (llm_calls w) (StuffQA [] email) = Inl e \<longrightarrow>
          fst (handle_general_inquiry sv email w) = Inl e
          \<and> (\<forall>w'. classify_email sv email w' = (''general_inquiry'', w) \<longrightarrow>
                fst (handle_email other sv email w') = (''error'', error_message)))"
proof -
  have r: "handle_general_inquiry sv email w =
           (llm sv (llm_calls w) (StuffQA [] email),
            w\<lparr>kb_queries := kb_queries w @ [email],
               llm_calls := llm_calls w @ [StuffQA [] email]\<rparr>)"
    using assms by (rule handle_general_inquiry_chunks)
  show ?thesis
  proof (intro conjI allI impI)
    show "handle_general_inquiry sv email w =
           (llm sv (llm_calls w) (StuffQA [] email),
            w\<lparr>kb_queries := kb_queries w @ [email],
               llm_calls := llm_calls w @ [StuffQA [] email]\<rparr>)" by (rule r)
  next
    fix answer assume "llm sv (llm_calls w) (StuffQA [] email) = Inr answer"
    then show "fst (handle_general_inquiry sv email w) = Inr answer" by (simp add: r)
  next
    fix e assume e: "llm sv (llm_calls w) (StuffQA [] email) = Inl e"
    then show "fst (handle_general_inquiry sv email w) = Inl e" by (simp add: r)
    fix w' assume "classify_email sv email w' = (''general_inquiry'', w)"
    then have "handle_email other sv email w' =
       (case handle_general_inquiry sv email w of
          (Inl e, w2) \<Rightarrow> ((''error'', error_message), w2)
        | (Inr r, w2) \<Rightarrow> ((''general_inquiry'', r), w2))"
      by (rule handle_email_general)
    then show "fst (handle_email other sv email w') = (''error'', error_message)"
      using e by (simp add: r)
  qed
qed

theorem handle_general_inquiry_no_chunks_witness:
  "handle_general_inquiry (scripted [Inr ''We ship within the EU.''] []) ''Do you ship abroad?'' w0
     = (Inr ''We ship within the EU.'',
        w0\<lparr>kb_queries := kb_queries w0 @ [''Do you ship abroad?''],
           llm_calls := llm_calls w0 @ [StuffQA [] ''Do you ship abroad?'']\<rparr>)"
proof -
  have a: "retriever (scripted [Inr ''We ship within the EU.''] []) ''Do you ship abroad?'' = Inr []"
    by (rule scripted_retriever)
  have b: "llm (scripted [Inr ''We ship within the EU.''] []) (llm_calls w0)
             (StuffQA [] ''Do you ship abroad?'') = Inr ''We ship within the EU.''"
    by (simp add: scripted_llm w0_def)
  from handle_general_inquiry_no_chunks [OF a, of w0 "\<lambda>x. []"] b show ?thesis by simp
qed

section \<open>The negative review branch\<close>

text \<open>
  C6 at a concrete run. The email is classified \<open>negative_review\<close> and the reply of the
  Completion Service has blanks around it. The router makes one call after the
  classification, asks neither the table nor the retriever, and returns the reply as it
  came, blanks included; the prompt of that call has one message, of the human role. On
  the same reply the positive review handler returns the trimmed text.
\<close>

theorem negative_review_reply_untrimmed:
  "fst (handle_email (\<lambda>x. [])
          (scripted [Inr ''negative_review'', Inr ''  We are sorry. \<newline>''] [])
          ''The gimbal was broken.'' w0)
     = (''negative_review'', ''  We are sorry. \<newline>'')
   \<and> strip ''  We are sorry. \<newline>'' = ''We are sorry.''
   \<and> llm_calls (snd (handle_email (\<lambda>x. [])
          (scripted [Inr ''negative_review'', Inr ''  We are sorry. \<newline>''] [])
          ''The gimbal was broken.'' w0))
     = [Invoke (classification_prompt ''The gimbal was broken.'')
               [(''email_content'', ''The gimbal was broken.'')],
        Invoke negative_review_prompt [(''review'', ''The gimbal was broken.'')]]
   \<and> db_queries (snd (handle_email (\<lambda>x. [])
          (scripted [Inr ''negative_review'', Inr ''  We are sorry. \<newline>''] [])
          ''The gimbal was broken.'' w0)) = []
   \<and> kb_queries (snd (handle_email (\<lambda>x. [])
          (scripted [Inr ''negative_review'', Inr ''  We are sorry. \<newline>''] [])
          ''The gimbal was broken.'' w0)) = []
   \<and> map fst negative_review_prompt = [Human]
   \<and> map fst positive_review_prompt = [System, Human]
   \<and> fst (handle_email (\<lambda>x. [])
          (scripted [Inr ''positive_review'', Inr ''  We are sorry. \<newline>''] [])
          ''The gimbal was broken.'' w0)
     = (''positive_review'', ''We are sorry.'')"
  by code_simp

end
